theory Spec2Isabelle
  imports Complex_Main "HOL-Library.Sublist"
begin

section \<open>The Python runtime the scripts run on\<close>

text \<open>
  The three conversion scripts are straight-line Python programs that call third-party
  libraries. A run is modelled as a function on a world (what was printed, which library
  calls were made, the files on disk) that either returns a value or aborts, either by
  \<open>sys.exit\<close> or by an exception nobody caught. What the libraries and the network do is
  not decided by the scripts: it is read from an environment.
\<close>

type_synonym path = string
type_synonym url = string

datatype lib = Coremltools | Numpy | Torch | Pillow | Transformers | Timm | Torchvision

text \<open>
  \<open>ModuleNotFoundError\<close> is the subclass of \<open>ImportError\<close> a failed import raises;
  \<open>Exception msg\<close> stands for any other exception a library call raises, with its text.
  All of them derive from Python's \<open>Exception\<close>; \<open>SystemExit\<close> does not, so that
  \<open>except Exception\<close> never catches it.
\<close>

datatype exn = ModuleNotFoundError lib | KeyError int | Exception string

datatype abort = SystemExit nat | Uncaught exn

text \<open>The library calls of the scripts that touch the network, the disk or the model.\<close>

datatype call =
    AutoImageProcessor_from_pretrained string
  | Model_from_pretrained string
  | Timm_create_model
  | Inception_v3
  | NamedTemporaryFile url
  | Urlretrieve url
  | Torch_load url
  | Load_state_dict url
  | Os_unlink url
  | Processor_call
  | Wrapper_init
  | Jit_trace
  | Traced_call
  | Ct_convert
  | Set_metadata
  | MLModel_save path
  | Dir_size path
  | MLModel_load path
  | Predict path
  | Format_probs

text \<open>Values whose printed form is produced by a library object, not by the script.\<close>

datatype rendered =
    Input_shape | Input_min | Input_max | Output_shape | Output_sum
  | Param_count | Size_mb | Prediction | Real_prob | Fake_prob

datatype state_dict = Tensor string | Dict "(string \<times> state_dict) list"

datatype weights = Pretrained string | Loaded state_dict

record config =
  num_labels :: nat
  id2label :: "(int \<times> string) list"

record model =
  arch :: string
  weights :: weights
  config :: config
  training :: bool

record image_type =
  name :: string
  shape :: "nat list"
  scale :: rat
  bias :: "rat list"
  color_layout :: string

record mlmodel =
  author :: string
  license :: string
  short_description :: string
  version :: string
  user_defined_metadata :: "string \<rightharpoonup> string"
  inputs :: "image_type list"
  outputs :: "string list"
  minimum_deployment_target :: string
  convert_to :: string
  compute_precision :: string
  network :: model

record env =
  installed :: "lib \<Rightarrow> bool"
  fails :: "call \<Rightarrow> string option"
  coremltools_version :: string
  hub_config :: "string \<Rightarrow> config"
  pixel_values_shape :: "nat list"
  checkpoint :: "url \<Rightarrow> state_dict"
  text_of :: "rendered \<Rightarrow> string"
  converter_metadata :: "string \<rightharpoonup> string"

text \<open>
  Besides the output and the calls made, the world holds the files on disk and the
  \<open>torch\<close> modules that are mutated in place, in a store indexed by reference.
\<close>

type_synonym ref = nat

record world =
  stdout :: "string list"
  events :: "call list"
  files :: "path \<rightharpoonup> mlmodel"
  objects :: "model list"

type_synonym 'a prog = "world \<Rightarrow> (abort + 'a) \<times> world"

definition ret :: "'a \<Rightarrow> 'a prog" where
  "ret x w = (Inr x, w)"

definition raise :: "exn \<Rightarrow> 'a prog" where
  "raise e w = (Inl (Uncaught e), w)"

definition sys_exit :: "nat \<Rightarrow> 'a prog" where
  "sys_exit n w = (Inl (SystemExit n), w)"

definition pbind :: "'a prog \<Rightarrow> ('a \<Rightarrow> 'b prog) \<Rightarrow> 'b prog" where
  "pbind m f w = (case m w of (Inl a, w') \<Rightarrow> (Inl a, w') | (Inr x, w') \<Rightarrow> f x w')"

definition pthen :: "unit prog \<Rightarrow> 'b prog \<Rightarrow> 'b prog" where
  "pthen m k = pbind m (\<lambda>_. k)"

definition print :: "string \<Rightarrow> unit prog" where
  "print s w = (Inr (), w\<lparr>stdout := stdout w @ [s]\<rparr>)"

fun prints :: "string list \<Rightarrow> unit prog" where
  "prints [] = ret ()"
| "prints (s # ss) = pthen (print s) (prints ss)"

definition emit :: "call \<Rightarrow> unit prog" where
  "emit c w = (Inr (), w\<lparr>events := events w @ [c]\<rparr>)"

text \<open>A library call: it is recorded, then returns or raises as the environment says.\<close>

definition extern :: "env \<Rightarrow> call \<Rightarrow> unit prog" where
  "extern env c =
     pthen (emit c) (case fails env c of None \<Rightarrow> ret () | Some msg \<Rightarrow> raise (Exception msg))"

text \<open>\<open>try: m except <class> as e: h e\<close>, the class given as a predicate on exceptions.\<close>

definition try_except :: "'a prog \<Rightarrow> (exn \<Rightarrow> bool) \<Rightarrow> (exn \<Rightarrow> 'a prog) \<Rightarrow> 'a prog" where
  "try_except m handles h w =
     (case m w of
        (Inl (Uncaught e), w') \<Rightarrow> if handles e then h e w' else (Inl (Uncaught e), w')
      | r \<Rightarrow> r)"

fun is_ImportError :: "exn \<Rightarrow> bool" where
  "is_ImportError (ModuleNotFoundError l) = True"
| "is_ImportError (KeyError k) = False"
| "is_ImportError (Exception msg) = False"

definition is_Exception :: "exn \<Rightarrow> bool" where
  "is_Exception e = True"

definition import_module :: "env \<Rightarrow> lib \<Rightarrow> unit prog" where
  "import_module env l = (if installed env l then ret () else raise (ModuleNotFoundError l))"

fun import_all :: "env \<Rightarrow> lib list \<Rightarrow> unit prog" where
  "import_all env [] = ret ()"
| "import_all env (l # ls) = pthen (import_module env l) (import_all env ls)"

subsection \<open>Strings\<close>

definition digit :: "nat \<Rightarrow> char" where
  "digit d = ''0123456789'' ! d"

function str_nat :: "nat \<Rightarrow> string" where
  "str_nat n = (if n < 10 then [digit n] else str_nat (n div 10) @ [digit (n mod 10)])"
  by pat_completeness auto
termination
  by (relation "measure id") auto

declare str_nat.simps [simp del]

definition str_int :: "int \<Rightarrow> string" where
  "str_int i = (if i < 0 then ''-'' @ str_nat (nat (- i)) else str_nat (nat i))"

fun join :: "string \<Rightarrow> string list \<Rightarrow> string" where
  "join sep [] = []"
| "join sep [x] = x"
| "join sep (x # y # ys) = x @ sep @ join sep (y # ys)"

definition nl :: string where
  "nl = [CHR 0x0A]"

definition rule60 :: string where
  "rule60 = replicate 60 (CHR ''='')"

definition repr_str :: "string \<Rightarrow> string" where
  "repr_str s = [CHR 0x27] @ s @ [CHR 0x27]"

definition repr_list :: "string list \<Rightarrow> string" where
  "repr_list xs = ''['' @ join '', '' (map repr_str xs) @ '']''"

definition repr_dict :: "(int \<times> string) list \<Rightarrow> string" where
  "repr_dict d = ''{'' @ join '', '' (map (\<lambda>(k, v). str_int k @ '': '' @ repr_str v) d) @ ''}''"

definition repr_shape :: "nat list \<Rightarrow> string" where
  "repr_shape s = ''torch.Size(['' @ join '', '' (map str_nat s) @ ''])''"

definition import_name :: "lib \<Rightarrow> string" where
  "import_name l = (case l of Coremltools \<Rightarrow> ''coremltools'' | Numpy \<Rightarrow> ''numpy''
     | Torch \<Rightarrow> ''torch'' | Pillow \<Rightarrow> ''PIL'' | Transformers \<Rightarrow> ''transformers''
     | Timm \<Rightarrow> ''timm'' | Torchvision \<Rightarrow> ''torchvision'')"

fun str_exn :: "exn \<Rightarrow> string" where
  "str_exn (ModuleNotFoundError l) = ''No module named '' @ repr_str (import_name l)"
| "str_exn (KeyError k) = str_int k"
| "str_exn (Exception msg) = msg"

fun exn_class :: "exn \<Rightarrow> string" where
  "exn_class (ModuleNotFoundError l) = ''ModuleNotFoundError''"
| "exn_class (KeyError k) = ''KeyError''"
| "exn_class (Exception msg) = ''Exception''"

subsection \<open>Dictionaries with integer keys\<close>

definition dict_len :: "('k \<times> 'v) list \<Rightarrow> nat" where
  "dict_len d = length (remdups (map fst d))"

text \<open>\<open>[d[i] for i in idxs]\<close>: the first missing key raises \<open>KeyError\<close>.\<close>

fun lookup_each :: "(int \<times> string) list \<Rightarrow> nat list \<Rightarrow> exn + string list" where
  "lookup_each d [] = Inr []"
| "lookup_each d (i # idxs) =
     (case map_of d (int i) of
        None \<Rightarrow> Inl (KeyError (int i))
      | Some v \<Rightarrow> (case lookup_each d idxs of Inl e \<Rightarrow> Inl e | Inr vs \<Rightarrow> Inr (v # vs)))"

definition lift_exn :: "exn + 'a \<Rightarrow> 'a prog" where
  "lift_exn r = (case r of Inl e \<Rightarrow> raise e | Inr x \<Rightarrow> ret x)"

subsection \<open>A process\<close>

text \<open>
  The interpreter's exit status: 0 when the module body returns, the argument of
  \<open>sys.exit\<close>, and 1 with a traceback on standard error for an uncaught exception.
\<close>

record process =
  exit_status :: nat
  out :: "string list"
  err :: "string list"
  calls :: "call list"
  disk :: "path \<rightharpoonup> mlmodel"

definition traceback :: "exn \<Rightarrow> string list" where
  "traceback e = [''Traceback (most recent call last):'', exn_class e @ '': '' @ str_exn e]"

definition run :: "unit prog \<Rightarrow> (path \<rightharpoonup> mlmodel) \<Rightarrow> process" where
  "run p fs =
     (case p \<lparr>stdout = [], events = [], files = fs, objects = []\<rparr> of
        (Inr u, w) \<Rightarrow>
          \<lparr>exit_status = 0, out = stdout w, err = [], calls = events w, disk = files w\<rparr>
      | (Inl (SystemExit n), w) \<Rightarrow>
          \<lparr>exit_status = n, out = stdout w, err = [], calls = events w, disk = files w\<rparr>
      | (Inl (Uncaught e), w) \<Rightarrow>
          \<lparr>exit_status = 1, out = stdout w, err = traceback e, calls = events w,
           disk = files w\<rparr>)"

section \<open>Library functions the scripts rely on\<close>

text \<open>
  A \<open>ct.ImageType\<close> input with \<open>scale\<close> and per-channel \<open>bias\<close> feeds the network
  \<open>scale * p + bias[c]\<close> for the pixel value \<open>p\<close> of channel \<open>c\<close>.
\<close>

definition preprocess :: "image_type \<Rightarrow> nat \<Rightarrow> rat \<Rightarrow> rat" where
  "preprocess t c p = scale t * p + bias t ! c"

text \<open>\<open>mlmodel.save(path)\<close> replaces whatever package is stored at the path.\<close>

definition MLModel_save_to :: "env \<Rightarrow> mlmodel \<Rightarrow> path \<Rightarrow> unit prog" where
  "MLModel_save_to env m p =
     pthen (extern env (MLModel_save p)) (\<lambda>w. (Inr (), w\<lparr>files := (files w)(p \<mapsto> m)\<rparr>))"

text \<open>\<open>os.path.exists(path)\<close>.\<close>

definition path_exists :: "path \<Rightarrow> bool prog" where
  "path_exists p w = (Inr (files w p \<noteq> None), w)"

text \<open>
  \<open>ct.convert\<close> with the arguments all three scripts pass besides inputs and outputs:
  \<open>minimum_deployment_target=ct.target.macOS14\<close>, \<open>convert_to="mlprogram"\<close>,
  \<open>compute_precision=ct.precision.FLOAT16\<close>. The package starts with empty descriptive
  fields and the converter's own metadata entries.
\<close>

definition ct_convert :: "env \<Rightarrow> model \<Rightarrow> image_type list \<Rightarrow> string list \<Rightarrow> mlmodel prog" where
  "ct_convert env net ins outs =
     pthen (extern env Ct_convert)
       (ret \<lparr>author = [], license = [], short_description = [], version = [],
             user_defined_metadata = converter_metadata env, inputs = ins, outputs = outs,
             minimum_deployment_target = ''macOS14'', convert_to = ''mlprogram'',
             compute_precision = ''FLOAT16'', network = net\<rparr>)"

text \<open>
  The store of modules: a new module gets the next reference; references handed out by
  \<open>new_object\<close> are the only ones the scripts use.
\<close>

definition new_object :: "model \<Rightarrow> ref prog" where
  "new_object m w = (Inr (length (objects w)), w\<lparr>objects := objects w @ [m]\<rparr>)"

definition deref :: "ref \<Rightarrow> model prog" where
  "deref r w = (Inr (objects w ! r), w)"

definition mutate :: "ref \<Rightarrow> (model \<Rightarrow> model) \<Rightarrow> unit prog" where
  "mutate r f w = (Inr (), w\<lparr>objects := (objects w)[r := f (objects w ! r)]\<rparr>)"

text \<open>What a \<open>from_pretrained\<close> call of the hub client returns for a model identifier.\<close>

definition from_hub :: "env \<Rightarrow> string \<Rightarrow> string \<Rightarrow> model" where
  "from_hub env cls model_id =
     \<lparr>arch = cls, weights = Pretrained model_id, config = hub_config env model_id,
      training = False\<rparr>"

section \<open>convert_siglip_to_coreml.py\<close>

definition siglip_MODEL_ID :: string where
  "siglip_MODEL_ID = ''Ateeqq/ai-vs-human-image-detector''"

definition siglip_OUTPUT_NAME :: string where
  "siglip_OUTPUT_NAME = ''AIDetector''"

definition siglip_INPUT_SIZE :: nat where
  "siglip_INPUT_SIZE = 224"

definition siglip_download_model :: "env \<Rightarrow> (model \<times> string) prog" where
  "siglip_download_model env =
     pthen (print (''Downloading model: '' @ siglip_MODEL_ID))
    (pthen (extern env (AutoImageProcessor_from_pretrained siglip_MODEL_ID))
    (let processor = siglip_MODEL_ID in
     pthen (extern env (Model_from_pretrained siglip_MODEL_ID))
    (let model = (from_hub env ''SiglipForImageClassification'' siglip_MODEL_ID)
                   \<lparr>training := False\<rparr> in
     pthen (print (''Model loaded: '' @ str_nat (num_labels (config model)) @ '' classes''))
    (pthen (print (''Labels: '' @ repr_dict (id2label (config model))))
    (ret (model, processor))))))"

record siglip_wrapper =
  siglip_wrapped :: model

definition siglip_trace_model ::
    "env \<Rightarrow> model \<Rightarrow> string \<Rightarrow> (siglip_wrapper \<times> nat list) prog" where
  "siglip_trace_model env model processor =
     pthen (print ''Tracing model...'')
    (pthen (extern env Processor_call)
    (let pixel_shape = pixel_values_shape env in
     pthen (print (''Input shape: '' @ repr_shape pixel_shape))
    (pthen (print (''Input range: ['' @ text_of env Input_min @ '', ''
                     @ text_of env Input_max @ '']''))
    (pthen (emit Wrapper_init)
    (let wrapper = \<lparr>siglip_wrapped = model\<lparr>training := False\<rparr>\<rparr> in
     pthen (extern env Jit_trace)
    (let traced = wrapper in
     pthen (extern env Traced_call)
    (pthen (print (''Output shape: '' @ text_of env Output_shape))
    (pthen (print (''Output sum (should be ~1.0): '' @ text_of env Output_sum))
    (ret (traced, pixel_shape))))))))))"

definition siglip_image_input :: "nat list \<Rightarrow> image_type" where
  "siglip_image_input input_shape =
     \<lparr>name = ''image'', shape = input_shape, scale = 1 / 127.5, bias = [- 1, - 1, - 1],
      color_layout = ''RGB''\<rparr>"

definition siglip_class_labels :: "config \<Rightarrow> exn + string list" where
  "siglip_class_labels model_config =
     (let labels_by_id = id2label model_config
      in lookup_each labels_by_id [0..<dict_len labels_by_id])"

definition siglip_create_classifier_model ::
    "env \<Rightarrow> siglip_wrapper \<Rightarrow> nat list \<Rightarrow> config \<Rightarrow> (mlmodel \<times> string list) prog" where
  "siglip_create_classifier_model env traced_model input_shape model_config =
     pthen (print ''Creating classifier model...'')
    (pbind (lift_exn (siglip_class_labels model_config)) (\<lambda>class_labels.
     pthen (print (''Class labels for classifier: '' @ repr_list class_labels))
    (let image_input = siglip_image_input input_shape in
     pbind (ct_convert env (siglip_wrapped traced_model) [image_input] [''probs''])
       (\<lambda>mlmodel. ret (mlmodel, class_labels)))))"

definition siglip_finalize_model :: "mlmodel \<Rightarrow> string list \<Rightarrow> mlmodel prog" where
  "siglip_finalize_model mlmodel class_labels =
     pthen (print ''Finalizing model with Float16 precision...'')
    (pthen (emit Set_metadata)
    (ret (mlmodel
       \<lparr>author := ''A-IQ App'',
        license := ''Apache 2.0'',
        short_description :=
          ''AI-generated image detector (SigLIP architecture). ''
          @ ''Trained on modern generators: Midjourney v6.1, Flux 1.1 Pro, ''
          @ ''Stable Diffusion 3.5, GPT-4o. Accuracy: 99.23%.'',
        version := ''2.0.0'',
        user_defined_metadata :=
          (user_defined_metadata mlmodel)
            (''class_labels'' \<mapsto> join '','' class_labels,
             ''source_model'' \<mapsto> siglip_MODEL_ID,
             ''input_size'' \<mapsto> str_nat siglip_INPUT_SIZE)\<rparr>)))"

definition siglip_verify :: "env \<Rightarrow> path \<Rightarrow> unit prog" where
  "siglip_verify env output_path =
     pthen (print (nl @ ''Verifying model...''))
    (try_except
       (pthen (extern env (MLModel_load output_path))
       (pthen (extern env (Predict output_path))
       (pthen (print (''Test prediction: '' @ text_of env Prediction))
              (print ''Model verification PASSED!''))))
       is_Exception
       (\<lambda>e. pthen (print (''Verification warning: '' @ str_exn e))
                   (print ''Model may still work - compile and test in Xcode.'')))"

definition siglip_check_dependencies :: "env \<Rightarrow> unit prog" where
  "siglip_check_dependencies env =
     try_except
       (pthen (import_module env Coremltools)
              (print (''coremltools version: '' @ coremltools_version env)))
       is_ImportError
       (\<lambda>e. pthen (print ''ERROR: coremltools not installed'')
            (pthen (print ''Run: pip install coremltools torch transformers pillow'')
                   (sys_exit 1)))"

definition siglip_main :: "env \<Rightarrow> unit prog" where
  "siglip_main env =
     pthen (prints [rule60, ''SigLIP to Core ML Converter'', rule60])
    (pthen (siglip_check_dependencies env)
    (pbind (siglip_download_model env) (\<lambda>(model, processor).
     pbind (siglip_trace_model env model processor) (\<lambda>(traced, input_shape).
     pbind (siglip_create_classifier_model env traced input_shape (config model))
       (\<lambda>(mlmodel, class_labels).
     pbind (siglip_finalize_model mlmodel class_labels) (\<lambda>mlmodel.
    (let output_path = siglip_OUTPUT_NAME @ ''.mlpackage'' in
     pthen (print (nl @ ''Saving model to: '' @ output_path))
    (pthen (MLModel_save_to env mlmodel output_path)
    (pthen (prints
       [nl @ rule60, ''SUCCESS!'', rule60,
        nl @ ''Model saved to: '' @ output_path,
        ''Class labels: '' @ repr_list class_labels,
        nl @ ''To compile for deployment:'',
        ''  xcrun coremlcompiler compile '' @ output_path @ '' ./'',
        nl @ ''Then copy AIDetector.mlmodelc to:'',
        ''  A-IQ/Resources/AIDetector.mlmodelc''])
    (siglip_verify env output_path))))))))))"

text \<open>
  The module body: the imports at the top of the file run first, then
  \<open>if __name__ == "__main__": main()\<close>. \<open>os\<close>, \<open>sys\<close> and \<open>pathlib\<close> belong to
  the interpreter.
\<close>

definition siglip_script :: "env \<Rightarrow> unit prog" where
  "siglip_script env =
     pthen (import_all env [Coremltools, Numpy, Torch, Pillow, Transformers]) (siglip_main env)"

section \<open>model_conversion/convert_deepfake_detector.py\<close>

definition deepfake_MODEL_ID :: string where
  "deepfake_MODEL_ID = ''prithivMLmods/deepfake-detector-model-v1''"

definition deepfake_OUTPUT_NAME :: string where
  "deepfake_OUTPUT_NAME = ''DeepfakeDetector''"

definition deepfake_INPUT_SIZE :: nat where
  "deepfake_INPUT_SIZE = 512"

definition deepfake_download_model :: "env \<Rightarrow> (model \<times> string) prog" where
  "deepfake_download_model env =
     pthen (print (''Downloading model: '' @ deepfake_MODEL_ID))
    (pthen (extern env (AutoImageProcessor_from_pretrained deepfake_MODEL_ID))
    (let processor = deepfake_MODEL_ID in
     pthen (extern env (Model_from_pretrained deepfake_MODEL_ID))
    (let model = (from_hub env ''AutoModelForImageClassification'' deepfake_MODEL_ID)
                   \<lparr>training := False\<rparr> in
     pthen (print (''Model loaded: '' @ str_nat (num_labels (config model)) @ '' classes''))
    (pthen (print (''Labels: '' @ repr_dict (id2label (config model))))
    (ret (model, processor))))))"

record deepfake_wrapper =
  deepfake_wrapped :: model

definition deepfake_trace_model ::
    "env \<Rightarrow> model \<Rightarrow> string \<Rightarrow> (deepfake_wrapper \<times> nat list) prog" where
  "deepfake_trace_model env model processor =
     pthen (print ''Tracing model...'')
    (pthen (extern env Processor_call)
    (let pixel_shape = pixel_values_shape env in
     pthen (print (''Input shape: '' @ repr_shape pixel_shape))
    (pthen (print (''Input range: ['' @ text_of env Input_min @ '', ''
                     @ text_of env Input_max @ '']''))
    (pthen (emit Wrapper_init)
    (let wrapper = \<lparr>deepfake_wrapped = model\<lparr>training := False\<rparr>\<rparr> in
     pthen (extern env Jit_trace)
    (let traced = wrapper in
     pthen (extern env Traced_call)
    (pthen (print (''Output shape: '' @ text_of env Output_shape))
    (pthen (print (''Output sum (should be ~1.0): '' @ text_of env Output_sum))
    (ret (traced, pixel_shape))))))))))"

definition deepfake_image_input :: "nat list \<Rightarrow> image_type" where
  "deepfake_image_input input_shape =
     \<lparr>name = ''face_image'', shape = input_shape, scale = 1 / 127.5, bias = [- 1, - 1, - 1],
      color_layout = ''RGB''\<rparr>"

definition deepfake_class_labels :: "config \<Rightarrow> exn + string list" where
  "deepfake_class_labels model_config =
     (let labels_by_id = id2label model_config
      in lookup_each labels_by_id [0..<dict_len labels_by_id])"

definition deepfake_convert_to_coreml ::
    "env \<Rightarrow> deepfake_wrapper \<Rightarrow> nat list \<Rightarrow> config \<Rightarrow> (mlmodel \<times> string list) prog" where
  "deepfake_convert_to_coreml env traced_model input_shape model_config =
     pthen (print ''Converting to Core ML...'')
    (pbind (lift_exn (deepfake_class_labels model_config)) (\<lambda>class_labels.
     pthen (print (''Class labels: '' @ repr_list class_labels))
    (let image_input = deepfake_image_input input_shape in
     pbind (ct_convert env (deepfake_wrapped traced_model) [image_input] [''probabilities''])
       (\<lambda>mlmodel. ret (mlmodel, class_labels)))))"

definition deepfake_finalize_model :: "mlmodel \<Rightarrow> string list \<Rightarrow> mlmodel prog" where
  "deepfake_finalize_model mlmodel class_labels =
     pthen (print ''Finalizing model...'')
    (pthen (emit Set_metadata)
    (ret (mlmodel
       \<lparr>author := ''A-IQ App'',
        license := ''Apache 2.0'',
        short_description :=
          ''Deepfake/face-swap detector (SigLIP architecture). ''
          @ ''Fine-tuned for binary deepfake image classification. ''
          @ ''Input: 512x512 face crop. Accuracy: ~94%.'',
        version := ''1.0.0'',
        user_defined_metadata :=
          (user_defined_metadata mlmodel)
            (''class_labels'' \<mapsto> join '','' class_labels,
             ''source_model'' \<mapsto> deepfake_MODEL_ID,
             ''input_size'' \<mapsto> str_nat deepfake_INPUT_SIZE)\<rparr>)))"

definition report_model_size :: "env \<Rightarrow> path \<Rightarrow> unit prog" where
  "report_model_size env output_path =
     pbind (path_exists output_path) (\<lambda>found.
       if found
       then pthen (extern env (Dir_size output_path))
                  (print (nl @ ''Model size: '' @ text_of env Size_mb @ '' MB''))
       else ret ())"

definition deepfake_verify :: "env \<Rightarrow> path \<Rightarrow> unit prog" where
  "deepfake_verify env output_path =
     pthen (print (nl @ ''Verifying model...''))
    (try_except
       (pthen (extern env (MLModel_load output_path))
       (pthen (extern env (Predict output_path))
       (pthen (print (''Test prediction: '' @ text_of env Prediction))
              (print ''Model verification PASSED!''))))
       is_Exception
       (\<lambda>e. pthen (print (''Verification warning: '' @ str_exn e))
                   (print ''Model may still work - compile and test in Xcode.'')))"

definition deepfake_check_dependencies :: "env \<Rightarrow> unit prog" where
  "deepfake_check_dependencies env =
     try_except
       (pthen (import_module env Coremltools)
              (print (''coremltools version: '' @ coremltools_version env)))
       is_ImportError
       (\<lambda>e. pthen (print ''ERROR: coremltools not installed'')
            (pthen (print ''Run: pip install coremltools torch transformers pillow'')
                   (sys_exit 1)))"

definition deepfake_main :: "env \<Rightarrow> unit prog" where
  "deepfake_main env =
     pthen (prints [rule60, ''Deepfake Detector (SigLIP) to Core ML Converter'', rule60])
    (pthen (deepfake_check_dependencies env)
    (pbind (deepfake_download_model env) (\<lambda>(model, processor).
     pbind (deepfake_trace_model env model processor) (\<lambda>(traced, input_shape).
     pbind (deepfake_convert_to_coreml env traced input_shape (config model))
       (\<lambda>(mlmodel, class_labels).
     pbind (deepfake_finalize_model mlmodel class_labels) (\<lambda>mlmodel.
    (let output_path = deepfake_OUTPUT_NAME @ ''.mlpackage'' in
     pthen (print (nl @ ''Saving model to: '' @ output_path))
    (pthen (MLModel_save_to env mlmodel output_path)
    (pthen (prints
       [nl @ rule60, ''SUCCESS!'', rule60,
        nl @ ''Model saved to: '' @ output_path,
        ''Class labels: '' @ repr_list class_labels,
        nl @ ''To compile for deployment:'',
        ''  xcrun coremlcompiler compile '' @ output_path @ '' ./'',
        nl @ ''Then copy DeepfakeDetector.mlmodelc to:'',
        ''  A-IQ/Resources/DeepfakeDetector.mlmodelc''])
    (pthen (report_model_size env output_path)
    (deepfake_verify env output_path)))))))))))"

definition deepfake_script :: "env \<Rightarrow> unit prog" where
  "deepfake_script env =
     pthen (import_all env [Coremltools, Numpy, Torch, Pillow, Transformers])
       (deepfake_main env)"

section \<open>model_conversion/convert_xceptionnet_deepfake.py\<close>

definition xception_OUTPUT_NAME :: string where
  "xception_OUTPUT_NAME = ''DeepfakeDetector''"

definition xception_INPUT_SIZE :: nat where
  "xception_INPUT_SIZE = 299"

text \<open>
  \<open>timm.create_model('xception', pretrained=True, num_classes=2)\<close> and the
  \<open>torchvision\<close> fallback with its last layer replaced by one of two outputs. Neither
  carries label names.
\<close>

definition timm_xception :: model where
  "timm_xception =
     \<lparr>arch = ''xception'', weights = Pretrained ''imagenet'',
      config = \<lparr>num_labels = 2, id2label = []\<rparr>, training = True\<rparr>"

definition torchvision_inception :: model where
  "torchvision_inception =
     \<lparr>arch = ''inception_v3'', weights = Pretrained ''IMAGENET1K_V1'',
      config = \<lparr>num_labels = 2, id2label = []\<rparr>, training = True\<rparr>"

definition create_xceptionnet_model :: "env \<Rightarrow> ref prog" where
  "create_xceptionnet_model env =
     pthen (print ''Creating XceptionNet model...'')
    (try_except
       (pthen (import_module env Timm)
       (pthen (extern env Timm_create_model)
       (pbind (new_object timm_xception) (\<lambda>model.
        pthen (print (''Model created with '' @ text_of env Param_count @ '' parameters''))
       (ret model)))))
       is_ImportError
       (\<lambda>e. pthen (print ''timm not available, using torchvision Inception as fallback'')
            (pthen (import_module env Torchvision)
            (pthen (extern env Inception_v3)
            (pbind (new_object torchvision_inception) (\<lambda>model. ret model))))))"

definition weight_urls :: "url list" where
  "weight_urls =
     [''https://github.com/kaushikram31/deepfake-detection-XceptionNet/raw/main/models/xception_ff.pth'']"

text \<open>
  \<open>if 'model' in state_dict: ... elif 'state_dict' in state_dict: ...\<close> on what
  \<open>torch.load\<close> returned.
\<close>

definition select_state_dict :: "state_dict \<Rightarrow> state_dict" where
  "select_state_dict sd =
     (case sd of
        Tensor t \<Rightarrow> sd
      | Dict kvs \<Rightarrow>
          (case map_of kvs ''model'' of
             Some m \<Rightarrow> m
           | None \<Rightarrow> (case map_of kvs ''state_dict'' of Some s \<Rightarrow> s | None \<Rightarrow> sd)))"

text \<open>The body of the \<open>try\<close> in the loop over the candidate URLs.\<close>

definition load_from_url :: "env \<Rightarrow> ref \<Rightarrow> url \<Rightarrow> ref prog" where
  "load_from_url env model url =
     pthen (print (''Trying to download from: '' @ url))
    (pthen (extern env (NamedTemporaryFile url))
    (pthen (extern env (Urlretrieve url))
    (pthen (extern env (Torch_load url))
    (let state_dict = select_state_dict (checkpoint env url) in
     pthen (extern env (Load_state_dict url))
    (pthen (mutate model (\<lambda>m. m\<lparr>weights := Loaded state_dict\<rparr>))
    (pthen (print ''Successfully loaded pretrained deepfake detection weights!'')
    (pthen (extern env (Os_unlink url))
    (ret model))))))))"

text \<open>One iteration: the \<open>try\<close> with its handler, \<open>None\<close> standing for \<open>continue\<close>.\<close>

definition try_url :: "env \<Rightarrow> ref \<Rightarrow> url \<Rightarrow> ref option prog" where
  "try_url env model url =
     try_except
       (pbind (load_from_url env model url) (\<lambda>m. ret (Some m)))
       is_Exception
       (\<lambda>e. pthen (print (''Could not load from '' @ url @ '': '' @ str_exn e)) (ret None))"

text \<open>
  The \<open>for url in weight_urls\<close> loop: \<open>Some model\<close> when an iteration returned, \<open>None\<close>
  when the list ran out.
\<close>

fun try_urls :: "env \<Rightarrow> ref \<Rightarrow> url list \<Rightarrow> ref option prog" where
  "try_urls env model [] = ret None"
| "try_urls env model (url # urls) =
     pbind (try_url env model url)
       (\<lambda>returned. case returned of
            Some m \<Rightarrow> ret (Some m)
          | None \<Rightarrow> try_urls env model urls)"

text \<open>The lines printed after the loop when no iteration returned.\<close>

definition baseline_warning :: "string list" where
  "baseline_warning =
     [nl @ ''WARNING: Could not download pretrained deepfake weights.'',
      ''Using ImageNet pretrained XceptionNet as baseline.'',
      ''For best results, manually download weights from:'',
      ''  - https://github.com/kaushikram31/deepfake-detection-XceptionNet'',
      ''  - https://github.com/HongguLiu/Deepfake-Detection'',
      nl @ ''Proceeding with ImageNet pretrained model...'']"

definition download_pretrained_weights_from :: "url list \<Rightarrow> env \<Rightarrow> ref \<Rightarrow> ref prog" where
  "download_pretrained_weights_from urls env model =
     pthen (print ''Setting up pretrained weights...'')
    (pbind (try_urls env model urls) (\<lambda>returned.
       case returned of
         Some m \<Rightarrow> ret m
       | None \<Rightarrow>
           pthen (prints baseline_warning) (ret model)))"

definition download_pretrained_weights :: "env \<Rightarrow> ref \<Rightarrow> ref prog" where
  "download_pretrained_weights env model = download_pretrained_weights_from weight_urls env model"

record xception_wrapper =
  xception_wrapped :: ref

definition xception_trace_model :: "env \<Rightarrow> ref \<Rightarrow> (xception_wrapper \<times> nat list) prog" where
  "xception_trace_model env model =
     pthen (print ''Tracing model...'')
    (pthen (emit Wrapper_init)
    (let wrapper = \<lparr>xception_wrapped = model\<rparr> in
     pthen (mutate model (\<lambda>m. m\<lparr>training := False\<rparr>))
    (let dummy_input_shape = [1, 3, xception_INPUT_SIZE, xception_INPUT_SIZE] in
     pthen (print (''Input shape: '' @ repr_shape dummy_input_shape))
    (pthen (extern env Jit_trace)
    (let traced = wrapper in
     pthen (extern env Traced_call)
    (pthen (print (''Output shape: '' @ text_of env Output_shape))
    (pthen (print (''Output sum (should be ~1.0): '' @ text_of env Output_sum))
    (ret (traced, dummy_input_shape)))))))))"

definition xception_image_input :: "nat list \<Rightarrow> image_type" where
  "xception_image_input input_shape =
     \<lparr>name = ''face_image'', shape = input_shape, scale = 1 / (255 * 0.226),
      bias = [- 0.485 / 0.229, - 0.456 / 0.224, - 0.406 / 0.225],
      color_layout = ''RGB''\<rparr>"

definition xception_convert_to_coreml ::
    "env \<Rightarrow> xception_wrapper \<Rightarrow> nat list \<Rightarrow> mlmodel prog" where
  "xception_convert_to_coreml env traced_model input_shape =
     pthen (print ''Converting to Core ML...'')
    (let image_input = xception_image_input input_shape in
     pbind (deref (xception_wrapped traced_model)) (\<lambda>net.
     pbind (ct_convert env net [image_input] [''probabilities'']) (\<lambda>mlmodel.
     ret mlmodel)))"

definition xception_finalize_model :: "mlmodel \<Rightarrow> mlmodel prog" where
  "xception_finalize_model mlmodel =
     pthen (print ''Finalizing model...'')
    (pthen (emit Set_metadata)
    (ret (mlmodel
       \<lparr>author := ''A-IQ App'',
        license := ''Research use'',
        short_description :=
          ''Deepfake/face-swap detector (XceptionNet architecture). ''
          @ ''Trained on FaceForensics++ dataset. ''
          @ ''Input: 299x299 face crop. Output: [real_prob, fake_prob].'',
        version := ''1.0.0'',
        user_defined_metadata :=
          (user_defined_metadata mlmodel)
            (''class_labels'' \<mapsto> ''Real,Fake'',
             ''training_data'' \<mapsto> ''FaceForensics++'',
             ''input_size'' \<mapsto> str_nat xception_INPUT_SIZE,
             ''output_format'' \<mapsto> ''[real_probability, fake_probability]'')\<rparr>)))"

definition xception_verify :: "env \<Rightarrow> path \<Rightarrow> unit prog" where
  "xception_verify env output_path =
     pthen (print (nl @ ''Verifying model...''))
    (try_except
       (pthen (extern env (MLModel_load output_path))
       (pthen (extern env (Predict output_path))
       (pthen (print (''Test prediction: '' @ text_of env Prediction))
       (pthen (extern env Format_probs)
       (pthen (print (''  Real probability: '' @ text_of env Real_prob))
       (pthen (print (''  Fake probability: '' @ text_of env Fake_prob))
              (print ''Model verification PASSED!'')))))))
       is_Exception
       (\<lambda>e. pthen (print (''Verification warning: '' @ str_exn e))
                   (print ''Model may still work - compile and test in Xcode.'')))"

definition xception_check_dependencies :: "env \<Rightarrow> unit prog" where
  "xception_check_dependencies env =
     try_except
       (pthen (import_module env Coremltools)
              (print (''coremltools version: '' @ coremltools_version env)))
       is_ImportError
       (\<lambda>e. pthen (print ''ERROR: coremltools not installed'')
            (pthen (print ''Run: pip install coremltools torch torchvision timm pillow'')
                   (sys_exit 1)))"

definition xception_main :: "env \<Rightarrow> unit prog" where
  "xception_main env =
     pthen (prints [rule60, ''XceptionNet Deepfake Detector to Core ML Converter'', rule60])
    (pthen (xception_check_dependencies env)
    (pbind (create_xceptionnet_model env) (\<lambda>model.
     pbind (download_pretrained_weights env model) (\<lambda>model.
     pthen (mutate model (\<lambda>m. m\<lparr>training := False\<rparr>))
    (pbind (xception_trace_model env model) (\<lambda>(traced, input_shape).
     pbind (xception_convert_to_coreml env traced input_shape) (\<lambda>mlmodel.
     pbind (xception_finalize_model mlmodel) (\<lambda>mlmodel.
    (let output_path = xception_OUTPUT_NAME @ ''.mlpackage'' in
     pthen (print (nl @ ''Saving model to: '' @ output_path))
    (pthen (MLModel_save_to env mlmodel output_path)
    (pthen (prints
       [nl @ rule60, ''SUCCESS!'', rule60,
        nl @ ''Model saved to: '' @ output_path,
        nl @ ''To compile for deployment:'',
        ''  xcrun coremlcompiler compile '' @ output_path @ '' ./'',
        nl @ ''Then copy DeepfakeDetector.mlmodelc to:'',
        ''  A-IQ/Resources/DeepfakeDetector.mlmodelc''])
    (pthen (report_model_size env output_path)
    (xception_verify env output_path)))))))))))))"

definition xception_script :: "env \<Rightarrow> unit prog" where
  "xception_script env =
     pthen (import_all env [Coremltools, Numpy, Torch, Pillow]) (xception_main env)"

section \<open>The documented preprocessing and the steps of a conversion\<close>

text \<open>
  The comment in both SigLIP scripts: \<open>(pixel / 255 - 0.5) / 0.5\<close>.
\<close>

definition siglip_normalize :: "rat \<Rightarrow> rat" where
  "siglip_normalize p = (p / 255 - 0.5) / 0.5"

text \<open>
  The comment in the XceptionNet script: \<open>(pixel / 255 - mean) / std\<close> with
  \<open>mean = [0.485, 0.456, 0.406]\<close> and \<open>std = [0.229, 0.224, 0.225]\<close>.
\<close>

definition imagenet_mean :: "rat list" where
  "imagenet_mean = [0.485, 0.456, 0.406]"

definition imagenet_std :: "rat list" where
  "imagenet_std = [0.229, 0.224, 0.225]"

definition imagenet_normalize :: "nat \<Rightarrow> rat \<Rightarrow> rat" where
  "imagenet_normalize c p = (p / 255 - imagenet_mean ! c) / imagenet_std ! c"

text \<open>
  The steps of a conversion as the specification names them, and the step each library
  call belongs to. Building the sample input for tracing and measuring the size of the
  saved package are not among the named steps.
\<close>

datatype step = Fetch | Wrap | Trace | Convert | Annotate | Save | Smoke_test

fun step_of :: "call \<Rightarrow> step option" where
  "step_of (AutoImageProcessor_from_pretrained i) = Some Fetch"
| "step_of (Model_from_pretrained i) = Some Fetch"
| "step_of Timm_create_model = Some Fetch"
| "step_of Inception_v3 = Some Fetch"
| "step_of (NamedTemporaryFile u) = Some Fetch"
| "step_of (Urlretrieve u) = Some Fetch"
| "step_of (Torch_load u) = Some Fetch"
| "step_of (Load_state_dict u) = Some Fetch"
| "step_of (Os_unlink u) = Some Fetch"
| "step_of Processor_call = None"
| "step_of Wrapper_init = Some Wrap"
| "step_of Jit_trace = Some Trace"
| "step_of Traced_call = Some Trace"
| "step_of Ct_convert = Some Convert"
| "step_of Set_metadata = Some Annotate"
| "step_of (MLModel_save p) = Some Save"
| "step_of (Dir_size p) = None"
| "step_of (MLModel_load p) = Some Smoke_test"
| "step_of (Predict p) = Some Smoke_test"
| "step_of Format_probs = Some Smoke_test"

definition steps_of :: "call list \<Rightarrow> step list" where
  "steps_of cs = remdups_adj (List.map_filter step_of cs)"

definition pipeline :: "step list" where
  "pipeline = [Fetch, Wrap, Trace, Convert, Annotate, Save, Smoke_test]"

section \<open>Describing runs\<close>

text \<open>
  The text of the first exception raised when library calls are made in the given order,
  and the calls made up to and including that one.
\<close>

fun first_failure :: "env \<Rightarrow> call list \<Rightarrow> string option" where
  "first_failure env [] = None"
| "first_failure env (c # cs) =
     (case fails env c of Some msg \<Rightarrow> Some msg | None \<Rightarrow> first_failure env cs)"

fun calls_made :: "env \<Rightarrow> call list \<Rightarrow> call list" where
  "calls_made env [] = []"
| "calls_made env (c # cs) =
     c # (case fails env c of None \<Rightarrow> calls_made env cs | Some msg \<Rightarrow> [])"

text \<open>
  The environments in which a script gets as far as its smoke test: the libraries imported
  at the top of the file are installed and no library call before the smoke test raises.
  The SigLIP scripts also need every index below the number of labels to be a key of
  \<open>id2label\<close>.
\<close>

definition siglip_reaches_smoke_test :: "env \<Rightarrow> bool" where
  "siglip_reaches_smoke_test env \<longleftrightarrow>
     list_all (installed env) [Coremltools, Numpy, Torch, Pillow, Transformers] \<and>
     first_failure env
       [AutoImageProcessor_from_pretrained siglip_MODEL_ID, Model_from_pretrained siglip_MODEL_ID,
        Processor_call, Jit_trace, Traced_call, Ct_convert,
        MLModel_save ''AIDetector.mlpackage''] = None \<and>
     \<not> isl (siglip_class_labels (hub_config env siglip_MODEL_ID))"

definition deepfake_reaches_smoke_test :: "env \<Rightarrow> bool" where
  "deepfake_reaches_smoke_test env \<longleftrightarrow>
     list_all (installed env) [Coremltools, Numpy, Torch, Pillow, Transformers] \<and>
     first_failure env
       [AutoImageProcessor_from_pretrained deepfake_MODEL_ID,
        Model_from_pretrained deepfake_MODEL_ID,
        Processor_call, Jit_trace, Traced_call, Ct_convert,
        MLModel_save ''DeepfakeDetector.mlpackage'',
        Dir_size ''DeepfakeDetector.mlpackage''] = None \<and>
     \<not> isl (deepfake_class_labels (hub_config env deepfake_MODEL_ID))"

definition xception_model_created :: "env \<Rightarrow> bool" where
  "xception_model_created env \<longleftrightarrow>
     (if installed env Timm then fails env Timm_create_model = None
      else installed env Torchvision \<and> fails env Inception_v3 = None)"

definition xception_reaches_smoke_test :: "env \<Rightarrow> bool" where
  "xception_reaches_smoke_test env \<longleftrightarrow>
     list_all (installed env) [Coremltools, Numpy, Torch, Pillow] \<and>
     xception_model_created env \<and>
     first_failure env
       [Jit_trace, Traced_call, Ct_convert, MLModel_save ''DeepfakeDetector.mlpackage'',
        Dir_size ''DeepfakeDetector.mlpackage''] = None"

text \<open>
  A run that ended in an uncaught exception before the smoke test: status 1, the package
  was never reloaded, and the steps made are a proper initial part of the pipeline.
\<close>

definition aborted :: "path \<Rightarrow> process \<Rightarrow> bool" where
  "aborted p r \<longleftrightarrow>
     exit_status r = 1 \<and> MLModel_load p \<notin> set (calls r) \<and>
     strict_prefix (steps_of (calls r)) pipeline"

subsection \<open>The weight-download loop\<close>

text \<open>
  One pass through the loop body makes the calls of \<open>url_calls\<close> in order. A failure of
  one of the first four is a failed download or weight load; \<open>os.unlink\<close> comes after the
  weights are in the model.
\<close>

definition url_calls :: "url \<Rightarrow> call list" where
  "url_calls u = [NamedTemporaryFile u, Urlretrieve u, Torch_load u, Load_state_dict u, Os_unlink u]"

definition load_error :: "env \<Rightarrow> url \<Rightarrow> string option" where
  "load_error env u =
     first_failure env [NamedTemporaryFile u, Urlretrieve u, Torch_load u, Load_state_dict u]"

definition attempt_error :: "env \<Rightarrow> url \<Rightarrow> string option" where
  "attempt_error env u = first_failure env (url_calls u)"

text \<open>The URLs the loop tries: it goes on to the next one only after an exception.\<close>

fun attempted :: "env \<Rightarrow> url list \<Rightarrow> url list" where
  "attempted env [] = []"
| "attempted env (u # us) = u # (if attempt_error env u = None then [] else attempted env us)"

definition attempt_lines :: "env \<Rightarrow> url \<Rightarrow> string list" where
  "attempt_lines env u =
     [''Trying to download from: '' @ u]
     @ (if load_error env u = None
        then [''Successfully loaded pretrained deepfake detection weights!''] else [])
     @ (case attempt_error env u of
          None \<Rightarrow> []
        | Some msg \<Rightarrow> [''Could not load from '' @ u @ '': '' @ msg])"

definition with_weights_from :: "env \<Rightarrow> model \<Rightarrow> url \<Rightarrow> model" where
  "with_weights_from env m u =
     (if load_error env u = None
      then m\<lparr>weights := Loaded (select_state_dict (checkpoint env u))\<rparr> else m)"

text \<open>The model after the attempts made: every completed weight load overwrites it.\<close>

definition weights_after :: "env \<Rightarrow> url list \<Rightarrow> model \<Rightarrow> model" where
  "weights_after env urls m = foldl (with_weights_from env) m (attempted env urls)"

definition download_lines :: "env \<Rightarrow> url list \<Rightarrow> string list" where
  "download_lines env urls =
     [''Setting up pretrained weights...'']
     @ concat (map (attempt_lines env) (attempted env urls))
     @ (if list_all (\<lambda>u. attempt_error env u \<noteq> None) urls then baseline_warning else [])"

definition download_calls :: "env \<Rightarrow> url list \<Rightarrow> call list" where
  "download_calls env urls = concat (map (\<lambda>u. calls_made env (url_calls u)) (attempted env urls))"

subsection \<open>Sample environments\<close>

text \<open>Everything is installed and every call succeeds; the hub model has two labels.\<close>

definition env_ok :: env where
  "env_ok =
     \<lparr>installed = (\<lambda>l. True), fails = (\<lambda>c. None), coremltools_version = ''8.1'',
      hub_config = (\<lambda>i. \<lparr>num_labels = 2, id2label = [(0, ''fake''), (1, ''real'')]\<rparr>),
      pixel_values_shape = [1, 3, 224, 224],
      checkpoint = (\<lambda>u. Dict [(''state_dict'', Dict [(''fc.weight'', Tensor ''2x2048'')])]),
      text_of = (\<lambda>r. ''0.5''), converter_metadata = Map.empty\<rparr>"

text \<open>As \<open>env_ok\<close>, with \<open>timm\<close> not installed.\<close>

definition env_no_timm :: env where
  "env_no_timm = env_ok\<lparr>installed := (\<lambda>l. l \<noteq> Timm)\<rparr>"

text \<open>As \<open>env_ok\<close>, with \<open>coremltools\<close> not installed.\<close>

definition env_no_coremltools :: env where
  "env_no_coremltools = env_ok\<lparr>installed := (\<lambda>l. l \<noteq> Coremltools)\<rparr>"

text \<open>As \<open>env_ok\<close>, with neither \<open>timm\<close> nor \<open>torchvision\<close> installed.\<close>

definition env_no_timm_no_torchvision :: env where
  "env_no_timm_no_torchvision = env_ok\<lparr>installed := (\<lambda>l. l \<noteq> Timm \<and> l \<noteq> Torchvision)\<rparr>"

text \<open>As \<open>env_ok\<close>, with every download answered by an HTTP error.\<close>

definition env_offline :: env where
  "env_offline =
     env_ok\<lparr>fails := (\<lambda>c. case c of Urlretrieve u \<Rightarrow> Some ''HTTP Error 404: Not Found''
                            | _ \<Rightarrow> None)\<rparr>"

text \<open>As \<open>env_ok\<close>, with the prediction of the reloaded package raising.\<close>

definition env_predict_fails :: env where
  "env_predict_fails =
     env_ok\<lparr>fails := (\<lambda>c. case c of Predict p \<Rightarrow> Some ''Error computing NN outputs''
                            | _ \<Rightarrow> None)\<rparr>"

section \<open>Numerical properties\<close>

subsection \<open>Input normalization\<close>

text \<open>
  Claim C5. Both SigLIP scripts pass scale \<open>1/127.5\<close> and bias \<open>-1\<close> for each of the
  three channels, and over the rationals \<open>(1/127.5) * p + (-1) = (p/255 - 0.5)/0.5\<close> for
  every pixel value \<open>p\<close>: the image input computes exactly the documented SigLIP
  normalization.
\<close>

theorem siglip_scale_bias_exact:
  "c < 3 \<Longrightarrow>
     scale (siglip_image_input s) = 1 / 127.5 \<and> bias (siglip_image_input s) ! c = - 1 \<and>
     scale (deepfake_image_input s) = 1 / 127.5 \<and> bias (deepfake_image_input s) ! c = - 1 \<and>
     (1 / 127.5) * p + (- 1) = (p / 255 - 0.5) / 0.5 \<and>
     preprocess (siglip_image_input s) c p = siglip_normalize p \<and>
     preprocess (deepfake_image_input s) c p = siglip_normalize p"
proof -
  assume "c < 3"
  then have "c = 0 \<or> c = 1 \<or> c = 2" by arith
  then show ?thesis
    by (auto simp: siglip_image_input_def deepfake_image_input_def preprocess_def
        siglip_normalize_def field_simps)
qed

theorem siglip_scale_bias_exact_witness:
  "preprocess (siglip_image_input [1, 3, 224, 224]) 0 255 = 1 \<and>
   preprocess (deepfake_image_input [1, 3, 512, 512]) 2 0 = - 1 \<and>
   siglip_normalize 255 = 1 \<and> siglip_normalize 0 = - 1"
  using siglip_scale_bias_exact [of 0 "[1, 3, 224, 224]" 255]
    siglip_scale_bias_exact [of 2 "[1, 3, 512, 512]" 0]
  by (simp add: siglip_normalize_def)

lemma xception_preprocess_differs:
  "c < 3 \<Longrightarrow> p \<noteq> 0 \<Longrightarrow> preprocess (xception_image_input s) c p \<noteq> imagenet_normalize c p"
proof -
  assume "c < 3" and p: "p \<noteq> 0"
  then have "c = 0 \<or> c = 1 \<or> c = 2" by arith
  with p show ?thesis
    by (auto simp: xception_image_input_def preprocess_def imagenet_normalize_def
        imagenet_mean_def imagenet_std_def field_simps)
qed

text \<open>
  Claim C10. The XceptionNet script passes the single scale \<open>1/(255*0.226)\<close> for all
  channels and the biases \<open>-0.485/0.229\<close>, \<open>-0.456/0.224\<close>, \<open>-0.406/0.225\<close>; the
  resulting transform differs from the per-channel ImageNet normalization
  \<open>(p/255 - mean\<^sub>c)/std\<^sub>c\<close> for some channel and pixel value.
\<close>

theorem xception_preprocessing_approximate:
  "scale (xception_image_input s) = 1 / (255 * 0.226) \<and>
   bias (xception_image_input s) = [- 0.485 / 0.229, - 0.456 / 0.224, - 0.406 / 0.225] \<and>
   (\<exists>c p. c < 3 \<and> preprocess (xception_image_input s) c p \<noteq> imagenet_normalize c p)"
proof -
  have "preprocess (xception_image_input s) 0 255 \<noteq> imagenet_normalize 0 255"
    by (simp add: xception_image_input_def preprocess_def imagenet_normalize_def
        imagenet_mean_def imagenet_std_def)
  then have "\<exists>c p. c < (3::nat) \<and> preprocess (xception_image_input s) c p \<noteq> imagenet_normalize c p"
    by (intro exI [of _ 0] exI [of _ 255]) simp
  then show ?thesis
    by (simp add: xception_image_input_def)
qed

end
